theory Spec2Isabelle
  imports Complex_Main "HOL-Library.Char_ord" "HOL-Library.List_Lexorder" "HOL-Library.Log_Nat"
    "HOL-Library.Multiset"
begin

text \<open>
  A shallow embedding of the frontend of the emotion-analysis application: the emotion
  utilities (\<^verbatim>\<open>emotionUtils.ts\<close>), the emotion visualizer, the therapy session
  component and the home page demo. Each function of the source is a function here, under
  its own name; React state is a record passed through the handlers, and the backend is a
  parameter. The definitions come first, the properties after them.
\<close>

section \<open>JavaScript strings\<close>

text \<open>
  A JavaScript string is modelled as a \<^typ>\<open>string\<close>: the list of its code units, each
  below 256 (code units from 256 on are outside the model). The string methods the
  frontend uses are \<^verbatim>\<open>toLowerCase\<close>, \<^verbatim>\<open>toUpperCase\<close> (on one character) and
  \<^verbatim>\<open>trim\<close>. The case mappings are modelled on the ASCII letters, which is where the
  keys of the source's tables live: the first maps \<^verbatim>\<open>A\<close>..\<^verbatim>\<open>Z\<close> to
  \<^verbatim>\<open>a\<close>..\<^verbatim>\<open>z\<close>, the second does the converse. \<^verbatim>\<open>trim\<close> strips white space and
  line terminators from both ends; below 256 these are TAB, LF, VT, FF, CR, SPACE and
  NO-BREAK SPACE (U+00A0).
\<close>

definition lower_char :: "char \<Rightarrow> char" where
  "lower_char c =
     (let n = (of_char c :: nat) in if 65 \<le> n \<and> n \<le> 90 then char_of (n + 32) else c)"

definition toLowerCase :: "string \<Rightarrow> string" where
  "toLowerCase s = map lower_char s"

definition upper_char :: "char \<Rightarrow> char" where
  "upper_char c =
     (let n = (of_char c :: nat) in if 97 \<le> n \<and> n \<le> 122 then char_of (n - 32) else c)"

definition is_ws :: "char \<Rightarrow> bool" where
  "is_ws c = ((of_char c :: nat) \<in> {9, 10, 11, 12, 13, 32, 160})"

definition trim :: "string \<Rightarrow> string" where
  "trim s = rev (dropWhile is_ws (rev (dropWhile is_ws s)))"

section \<open>Therapy techniques (\<^verbatim>\<open>frontend/lib/emotionUtils.ts\<close>)\<close>

record TherapyTechnique =
  technique_id :: string
  name :: string
  description :: string
  forEmotions :: "string list"
  steps :: "string list"

definition deep_breathing :: TherapyTechnique where
  "deep_breathing = \<lparr>
     technique_id = ''deep-breathing'',
     name = ''Deep Breathing Exercise'',
     description = ''A simple technique to reduce stress and anxiety by controlling your breath'',
     forEmotions = [''angry'', ''fear'', ''sad'', ''disgust''],
     steps = [
       ''Find a comfortable position and close your eyes'',
       ''Breathe in slowly through your nose for a count of 4'',
       ''Hold your breath for a count of 2'',
       ''Exhale slowly through your mouth for a count of 6'',
       ''Repeat for 5-10 cycles''] \<rparr>"

definition gratitude_practice :: TherapyTechnique where
  "gratitude_practice = \<lparr>
     technique_id = ''gratitude-practice'',
     name = ''Gratitude Practice'',
     description = ''Focusing on things you are grateful for to improve mood and perspective'',
     forEmotions = [''sad'', ''angry'', ''disgust''],
     steps = [
       ''Take a moment to reflect on your day'',
       ''Identify three things you are grateful for, no matter how small'',
       ''For each item, consider why you are grateful for it'',
       ''Notice how acknowledging these positives affects your mood''] \<rparr>"

definition grounding_54321 :: TherapyTechnique where
  "grounding_54321 = \<lparr>
     technique_id = ''grounding-54321'',
     name = ''5-4-3-2-1 Grounding Technique'',
     description = ''A sensory awareness exercise to manage anxiety and bring focus to the present'',
     forEmotions = [''fear'', ''angry'', ''sad''],
     steps = [
       ''Acknowledge 5 things you can see'',
       ''Acknowledge 4 things you can touch/feel'',
       ''Acknowledge 3 things you can hear'',
       ''Acknowledge 2 things you can smell'',
       ''Acknowledge 1 thing you can taste''] \<rparr>"

definition positive_reframing :: TherapyTechnique where
  "positive_reframing = \<lparr>
     technique_id = ''positive-reframing'',
     name = ''Positive Reframing'',
     description = ''Changing perspective by finding the positive aspects in challenging situations'',
     forEmotions = [''sad'', ''fear'', ''angry'', ''disgust''],
     steps = [
       ''Identify a negative thought or situation'',
       ''Challenge the thought: Is it entirely true? Are you seeing the whole picture?'',
       ''Find a more balanced or positive interpretation'',
       ''Focus on what you have learned or how you have grown from the experience''] \<rparr>"

definition therapyTechniques :: "TherapyTechnique list" where
  "therapyTechniques = [deep_breathing, gratitude_practice, grounding_54321, positive_reframing]"

text \<open>
  \<^verbatim>\<open>getTechniquesForEmotion\<close>: lowercase the argument, then keep the techniques whose
  \<^verbatim>\<open>forEmotions\<close> array includes it. \<^verbatim>\<open>Array.prototype.filter\<close> keeps the table's order.
\<close>

definition getTechniquesForEmotion :: "string \<Rightarrow> TherapyTechnique list" where
  "getTechniquesForEmotion emotionName =
     (let emotion = toLowerCase emotionName
      in filter (\<lambda>technique. emotion \<in> set (forEmotions technique)) therapyTechniques)"

section \<open>JavaScript numbers and objects\<close>

text \<open>
  Emotion scores are JavaScript numbers: IEEE 754 double-precision values. A finite double
  is modelled by the rational number it denotes; \<^verbatim>\<open>NaN\<close>, the infinities (so also
  overflow) and the sign of zero are not modelled. An arithmetic operation of the source
  is the exact operation followed by \<open>double_round\<close>, the rounding to the nearest double
  with ties to the even significand: 53 significant bits, and steps of 2 to the power
  -1074 in the subnormal range. A decimal literal of the source, such as \<^verbatim>\<open>0.9\<close>, denotes the
  double nearest to it.
\<close>

definition pow2 :: "int \<Rightarrow> rat" where
  "pow2 e = (if 0 \<le> e then 2 ^ nat e else 1 / 2 ^ nat (- e))"

definition round_half_even :: "rat \<Rightarrow> int" where
  "round_half_even q =
     (let f = \<lfloor>q\<rfloor>; r = q - rat_of_int f
      in if r < 1 / 2 then f else if 1 / 2 < r then f + 1 else if even f then f else f + 1)"

text \<open>
  The binary exponent of a positive rational \<open>a\<close>: the \<open>e\<close> with
  \<open>pow2 e \<le> a < pow2 (e + 1)\<close>. It is the difference of the bit lengths of numerator
  and denominator, or one less.
\<close>

definition binary_exponent :: "rat \<Rightarrow> int" where
  "binary_exponent a =
     (case quotient_of a of (n, d) \<Rightarrow>
        let e = bitlen n - bitlen d in if pow2 e \<le> a then e else e - 1)"

definition double_round :: "rat \<Rightarrow> rat" where
  "double_round x =
     (if x = 0 then 0
      else let a = \<bar>x\<bar>;
               e = max (binary_exponent a - 52) (- 1074);
               m = round_half_even (a / pow2 e)
           in sgn x * rat_of_int m * pow2 e)"

definition fmul :: "rat \<Rightarrow> rat \<Rightarrow> rat" where
  "fmul a b = double_round (a * b)"

definition fdiv :: "rat \<Rightarrow> rat \<Rightarrow> rat" where
  "fdiv a b = double_round (a / b)"

text \<open>
  \<^verbatim>\<open>Math.round\<close> returns the integer nearest to its argument, a tie towards plus
  infinity; it is exact.
\<close>

definition Math_round :: "rat \<Rightarrow> int" where
  "Math_round x = \<lfloor>x + 1 / 2\<rfloor>"

text \<open>
  An emotion mapping (a \<^verbatim>\<open>Record\<close> from string to number) is read by the code through
  \<^verbatim>\<open>Object.entries\<close> and \<^verbatim>\<open>Object.keys\<close> only, so it is modelled as the list of
  its own entries in iteration order (for labels that are not array indices, the order in
  which the keys were inserted).
\<close>

type_synonym emotions = "(string \<times> rat) list"

text \<open>
  The lookup tables of the source (\<^verbatim>\<open>emotionColors\<close>, \<^verbatim>\<open>EMOTION_COLORS\<close>,
  \<^verbatim>\<open>emotionTips\<close>) are object literals. Reading a property of an object literal, and the
  \<^verbatim>\<open>in\<close> operator, look at the object's own properties first and then at those it
  inherits from \<^verbatim>\<open>Object.prototype\<close>, whose property names are listed here. An
  inherited property is a function (or, for \<^verbatim>\<open>__proto__\<close>, the prototype object):
  never a string or an array, and always truthy.
\<close>

definition Object_prototype :: "string list" where
  "Object_prototype =
     [''constructor'', ''__defineGetter__'', ''__defineSetter__'', ''hasOwnProperty'',
      ''__lookupGetter__'', ''__lookupSetter__'', ''isPrototypeOf'', ''propertyIsEnumerable'',
      ''toString'', ''valueOf'', ''__proto__'', ''toLocaleString'']"

datatype 'a js = Val 'a | Inherited string | Undefined

definition Get :: "(string \<times> 'a) list \<Rightarrow> string \<Rightarrow> 'a js" where
  "Get obj key =
     (case map_of obj key of
        Some v \<Rightarrow> Val v
      | None \<Rightarrow> if key \<in> set Object_prototype then Inherited key else Undefined)"

definition HasProperty :: "(string \<times> 'a) list \<Rightarrow> string \<Rightarrow> bool" where
  "HasProperty obj key \<longleftrightarrow> key \<in> set (map fst obj) \<or> key \<in> set Object_prototype"

fun truthy_string :: "string js \<Rightarrow> bool" where
  "truthy_string (Val s) = (s \<noteq> [])"
| "truthy_string (Inherited k) = True"
| "truthy_string Undefined = False"

fun truthy_array :: "'a list js \<Rightarrow> bool" where
  "truthy_array (Val xs) = True"
| "truthy_array (Inherited k) = True"
| "truthy_array Undefined = False"

datatype error = TypeError

section \<open>Emotion utilities (\<^verbatim>\<open>frontend/lib/emotionUtils.ts\<close>)\<close>

definition emotionColors :: "(string \<times> string) list" where
  "emotionColors =
     [(''happy'', ''#10B981''), (''sad'', ''#6B7280''), (''angry'', ''#EF4444''),
      (''disgust'', ''#8B5CF6''), (''fear'', ''#7C3AED''), (''surprise'', ''#F59E0B''),
      (''neutral'', ''#4F46E5'')]"

record EmotionData =
  emotion :: string
  percentage :: int
  color :: "string js"

definition formatEmotionData :: "emotions \<Rightarrow> EmotionData list" where
  "formatEmotionData emotions =
     map (\<lambda>(label, value).
       let normalizedEmotion = toLowerCase label;
           c = (if HasProperty emotionColors normalizedEmotion
                then Get emotionColors normalizedEmotion
                else Get emotionColors ''neutral'')
       in \<lparr>emotion = label, percentage = Math_round (fmul value 100), color = c\<rparr>)
     emotions"

text \<open>
  \<^verbatim>\<open>getDominantEmotion\<close>: a \<^verbatim>\<open>forEach\<close> over the entries that updates the pair
  \<^verbatim>\<open>(maxScore, dominant)\<close>, starting from \<^verbatim>\<open>(0, 'neutral')\<close>, whenever a score is
  strictly greater than the running maximum.
\<close>

fun dominant_step :: "string \<times> rat \<Rightarrow> rat \<times> string \<Rightarrow> rat \<times> string" where
  "dominant_step (label, score) (maxScore, dominant) =
     (if score > maxScore then (score, label) else (maxScore, dominant))"

definition getDominantEmotion :: "emotions \<Rightarrow> string" where
  "getDominantEmotion emotions = snd (fold dominant_step emotions (0, ''neutral''))"

section \<open>The emotion visualizer (\<^verbatim>\<open>frontend/components/emotion/EmotionVisualizer.tsx\<close>)\<close>

definition EMOTION_COLORS :: "(string \<times> string) list" where
  "EMOTION_COLORS =
     [(''happy'', ''#10B981''), (''joy'', ''#10B981''), (''sad'', ''#6B7280''),
      (''sadness'', ''#6B7280''), (''angry'', ''#EF4444''), (''anger'', ''#EF4444''),
      (''disgust'', ''#8B5CF6''), (''fear'', ''#7C3AED''), (''surprised'', ''#F59E0B''),
      (''surprise'', ''#F59E0B''), (''neutral'', ''#4F46E5''), (''calm'', ''#4F46E5'')]"

definition defaultEmotions :: "EmotionData list" where
  "defaultEmotions =
     [\<lparr>emotion = ''Neutral'', percentage = 65, color = Val ''#4F46E5''\<rparr>,
      \<lparr>emotion = ''Happy'', percentage = 15, color = Val ''#10B981''\<rparr>,
      \<lparr>emotion = ''Sad'', percentage = 10, color = Val ''#6B7280''\<rparr>,
      \<lparr>emotion = ''Angry'', percentage = 5, color = Val ''#EF4444''\<rparr>,
      \<lparr>emotion = ''Surprised'', percentage = 5, color = Val ''#F59E0B''\<rparr>]"

text \<open>\<^verbatim>\<open>emotion.charAt(0).toUpperCase() + emotion.slice(1)\<close>\<close>

fun capitalize :: "string \<Rightarrow> string" where
  "capitalize [] = []"
| "capitalize (c # cs) = upper_char c # cs"

text \<open>
  \<^verbatim>\<open>formatEmotions\<close>: the default list for an absent or empty mapping; otherwise each
  entry is formatted, the list is sorted by descending percentage (\<^verbatim>\<open>Array.prototype.sort\<close>
  is stable, as \<^const>\<open>sort_key\<close> is) and cut to its first five entries. Nothing in the
  \<^verbatim>\<open>try\<close> block can throw, so the \<^verbatim>\<open>catch\<close> branch is not reached.
\<close>

fun format_entry :: "string \<times> rat \<Rightarrow> EmotionData" where
  "format_entry (label, value) =
     \<lparr>emotion = capitalize label,
      percentage = Math_round (fmul value 100),
      color = (let c = Get EMOTION_COLORS (toLowerCase label)
               in if truthy_string c then c else Val ''#4F46E5'')\<rparr>"

definition formatEmotions :: "emotions option \<Rightarrow> EmotionData list" where
  "formatEmotions rawData =
     (case rawData of
        None \<Rightarrow> defaultEmotions
      | Some entries \<Rightarrow>
          if length entries = 0 then defaultEmotions
          else let formatted = take 5 (sort_key (\<lambda>e. - percentage e) (map format_entry entries))
               in if length formatted > 0 then formatted else defaultEmotions)"

text \<open>\<^verbatim>\<open>displayEmotions[0]?.emotion || 'Neutral'\<close>\<close>

definition dominantEmotion :: "EmotionData list \<Rightarrow> string" where
  "dominantEmotion displayEmotions =
     (case displayEmotions of
        [] \<Rightarrow> ''Neutral''
      | e # _ \<Rightarrow> if emotion e = [] then ''Neutral'' else emotion e)"

definition emotionTips :: "(string \<times> string list) list" where
  "emotionTips =
     [(''Neutral'',
        [''Practice regular mindfulness meditation'',
         ''Set goals for personal growth'',
         ''Engage in activities that bring you peace'']),
      (''Happy'',
        [''Journal about what brought you joy today'',
         ''Share your positive feelings with others'',
         ''Build on this energy to tackle challenges'']),
      (''Sad'',
        [''Allow yourself to feel without judgment'',
         ''Connect with a supportive friend or family member'',
         ''Try gentle physical activity like walking'']),
      (''Angry'',
        [''Take deep breaths to calm your nervous system'',
         ''Try counting to 10 before responding'',
         ''Channel the energy into productive activities'']),
      (''Fear'',
        [''Ground yourself by naming 5 things you can see'',
         ''Challenge catastrophic thinking patterns'',
         ''Practice progressive muscle relaxation'']),
      (''Surprised'',
        [''Take a moment to process the unexpected'',
         ''Consider different perspectives of the situation'',
         ''Adapt your plans as needed'']),
      (''Disgust'',
        [''Identify the specific trigger for your feeling'',
         ''Practice acceptance of uncomfortable emotions'',
         ''Reframe your thinking about the situation''])]"

text \<open>\<^verbatim>\<open>emotionTips[emotion] || emotionTips['Neutral']\<close>\<close>

definition getTherapyTips :: "string \<Rightarrow> string list js" where
  "getTherapyTips label =
     (let tips = Get emotionTips label
      in if truthy_array tips then tips else Get emotionTips ''Neutral'')"

text \<open>
  The component renders the tips with \<^verbatim>\<open>therapyTips.map(...)\<close>. Only an array has a
  \<^verbatim>\<open>map\<close> method: on any other value the call throws a \<^verbatim>\<open>TypeError\<close>.
\<close>

fun render_tips :: "string list js \<Rightarrow> error + string list" where
  "render_tips (Val tips) = Inr tips"
| "render_tips (Inherited k) = Inl TypeError"
| "render_tips Undefined = Inl TypeError"

record rendering =
  shown_emotions :: "EmotionData list"
  shown_dominant :: string
  shown_tips :: "string list"

definition EmotionVisualizer :: "emotions option \<Rightarrow> bool \<Rightarrow> error + rendering" where
  "EmotionVisualizer rawEmotions useMockData =
     (let displayEmotions = (if useMockData then defaultEmotions else formatEmotions rawEmotions);
          dominant = dominantEmotion displayEmotions
      in case render_tips (getTherapyTips dominant) of
           Inl e \<Rightarrow> Inl e
         | Inr tips \<Rightarrow>
             Inr \<lparr>shown_emotions = displayEmotions, shown_dominant = dominant,
                  shown_tips = tips\<rparr>)"

section \<open>The mock visualizer (\<^verbatim>\<open>frontend/src/components/emotion/EmotionVisualizer.tsx\<close>)\<close>

text \<open>
  Every three seconds the mock component draws five random percentages. The five
  arguments are the values of \<^verbatim>\<open>Math.floor(Math.random() * 30)\<close>, \<^verbatim>\<open>... * 20\<close>,
  \<^verbatim>\<open>... * 15\<close>, \<^verbatim>\<open>... * 10\<close> and \<^verbatim>\<open>... * 10\<close>: numbers below 30, 20, 15, 10
  and 10. The component then divides each percentage by the total, which is at least 55,
  and rounds (its comment: normalize to ensure total is 100 percent).
\<close>

definition mockEmotion :: "nat \<Rightarrow> nat \<Rightarrow> nat \<Rightarrow> nat \<Rightarrow> nat \<Rightarrow> EmotionData list" where
  "mockEmotion r1 r2 r3 r4 r5 =
     [\<lparr>emotion = ''Neutral'', percentage = int r1 + 45, color = Val ''#4F46E5''\<rparr>,
      \<lparr>emotion = ''Happy'', percentage = int r2 + 5, color = Val ''#10B981''\<rparr>,
      \<lparr>emotion = ''Sad'', percentage = int r3 + 5, color = Val ''#6B7280''\<rparr>,
      \<lparr>emotion = ''Angry'', percentage = int r4, color = Val ''#EF4444''\<rparr>,
      \<lparr>emotion = ''Surprised'', percentage = int r5, color = Val ''#F59E0B''\<rparr>]"

definition normalizedEmotions :: "EmotionData list \<Rightarrow> EmotionData list" where
  "normalizedEmotions mock =
     (let total = sum_list (map percentage mock)
      in map (\<lambda>e. e\<lparr>percentage :=
                       Math_round (fmul (fdiv (rat_of_int (percentage e)) (rat_of_int total)) 100)\<rparr>)
           mock)"

section \<open>The backend, as the frontend sees it\<close>

text \<open>
  The components talk to the backend through \<^verbatim>\<open>axios.post\<close>. A call either throws
  (network error, non-2xx status) or returns a response whose \<^verbatim>\<open>data\<close> is the parsed
  body: a null body, or an object with \<^verbatim>\<open>response_text\<close> and, possibly,
  \<^verbatim>\<open>detected_emotions\<close>. The backend is a parameter of the model; the requests the
  frontend issues are recorded in the state as a log.
\<close>

type_synonym blob = string

datatype request =
    PostAnalyzeAudio blob "string option" "string option"
  | PostAnalyzeText string "string option"
  | PostAnalyzeTextEmotions string

record response_data =
  response_text :: string
  detected_emotions :: "emotions option"

datatype response = Failed | Response "response_data option"

type_synonym backend = "request \<Rightarrow> response"

section \<open>The therapy session component (\<^verbatim>\<open>TherapySession\<close>)\<close>

datatype sender = User | AI

record Message =
  msg_id :: nat
  msg_text :: string
  sender :: sender
  msg_emotions :: "emotions option"

text \<open>
  Message ids are decimal renderings of numbers (\<^verbatim>\<open>'1'\<close>, \<^verbatim>\<open>Date.now().toString()\<close>);
  the model keeps the number. The clock readings \<^verbatim>\<open>Date.now()\<close> are arguments.

  The component's \<^verbatim>\<open>analyzeEmotions\<close> is wrapped in \<^verbatim>\<open>debounce(..., 500)\<close>: a call only
  records its argument and restarts a timer of 500 ms, and the wrapped function runs on the
  last recorded argument when the timer expires. \<open>pendingAnalysis\<close> is the recorded
  argument of a call whose timer is still running; \<open>requests\<close> is the log of the requests
  posted so far.
\<close>

record session_state =
  messages :: "Message list"
  inputText :: string
  audioBlob :: "blob option"
  loading :: bool
  currentEmotions :: emotions
  isAnalyzingEmotions :: bool
  pendingAnalysis :: "string option"
  requests :: "request list"

definition canonical_default :: emotions where
  "canonical_default = [(''neutral'', double_round (9 / 10)), (''calm'', double_round (1 / 10))]"

definition initial_state :: session_state where
  "initial_state = \<lparr>
     messages = [\<lparr>msg_id = 1,
                  msg_text = ''Hello, I'm your empathetic AI assistant. How are you feeling today?'',
                  sender = AI, msg_emotions = None\<rparr>],
     inputText = [],
     audioBlob = None,
     loading = False,
     currentEmotions = canonical_default,
     isAnalyzingEmotions = False,
     pendingAnalysis = None,
     requests = [] \<rparr>"

text \<open>
  \<^verbatim>\<open>analyzeEmotions\<close> (the function that is debounced): blank text sets the default
  emotions and returns; otherwise the trimmed text is posted and the answer is stored, an
  empty answer replaced by \<^verbatim>\<open>{neutral: 1.0}\<close>, a missing or failed one by the default.
\<close>

definition analyzeEmotions :: "backend \<Rightarrow> string \<Rightarrow> session_state \<Rightarrow> session_state" where
  "analyzeEmotions backend txt st =
     (if trim txt = [] then
        st\<lparr>currentEmotions := canonical_default, isAnalyzingEmotions := False\<rparr>
      else
        let req = PostAnalyzeTextEmotions (trim txt);
            st1 = st\<lparr>requests := requests st @ [req]\<rparr>;
            st2 = (case backend req of
                     Failed \<Rightarrow> st1\<lparr>currentEmotions := canonical_default\<rparr>
                   | Response None \<Rightarrow> st1\<lparr>currentEmotions := canonical_default\<rparr>
                   | Response (Some d) \<Rightarrow>
                       (case detected_emotions d of
                          None \<Rightarrow> st1\<lparr>currentEmotions := canonical_default\<rparr>
                        | Some detectedEmotions \<Rightarrow>
                            let newEmotions =
                                  (if length detectedEmotions = 0 then [(''neutral'', 1)]
                                   else detectedEmotions)
                            in st1\<lparr>currentEmotions := newEmotions\<rparr>))
        in st2\<lparr>isAnalyzingEmotions := False\<rparr>)"

text \<open>
  A call of the debounced function, and the expiry of its timer.
\<close>

definition debounced_analyzeEmotions :: "string \<Rightarrow> session_state \<Rightarrow> session_state" where
  "debounced_analyzeEmotions txt st = st\<lparr>pendingAnalysis := Some txt\<rparr>"

definition analysis_timer_expires :: "backend \<Rightarrow> session_state \<Rightarrow> session_state" where
  "analysis_timer_expires backend st =
     (case pendingAnalysis st of
        None \<Rightarrow> st
      | Some txt \<Rightarrow> analyzeEmotions backend txt (st\<lparr>pendingAnalysis := None\<rparr>))"

text \<open>
  \<^verbatim>\<open>handleTextChange\<close>: stores the text; non-blank text sets the analysing flag and calls
  the debounced analysis, blank text sets the default emotions directly (and leaves a
  pending analysis of earlier text as it is).
\<close>

definition handleTextChange :: "string \<Rightarrow> session_state \<Rightarrow> session_state" where
  "handleTextChange txt st =
     (let st1 = st\<lparr>inputText := txt\<rparr>
      in if trim txt \<noteq> [] then debounced_analyzeEmotions txt (st1\<lparr>isAnalyzingEmotions := True\<rparr>)
         else st1\<lparr>currentEmotions := canonical_default\<rparr>)"

definition apology :: string where
  "apology = ''I'm sorry, I couldn't process your message. Please try again.''"

definition errorMessage :: "nat \<Rightarrow> Message" where
  "errorMessage now = \<lparr>msg_id = now + 1, msg_text = apology, sender = AI, msg_emotions = None\<rparr>"

definition aiMessage :: "nat \<Rightarrow> response_data \<Rightarrow> Message" where
  "aiMessage now d =
     \<lparr>msg_id = now + 1, msg_text = response_text d, sender = AI,
      msg_emotions = detected_emotions d\<rparr>"

text \<open>\<^verbatim>\<open>if (sessionId)\<close>: an absent or empty session id is not sent.\<close>

definition session_field :: "string option \<Rightarrow> string option" where
  "session_field sessionId =
     (case sessionId of None \<Rightarrow> None | Some s \<Rightarrow> if s = [] then None else Some s)"

text \<open>
  \<^verbatim>\<open>sendMessage\<close>. The guard returns at once. Otherwise the user's message is appended,
  the input cleared and \<^verbatim>\<open>loading\<close> set; the request is posted (audio with optional
  text, or text alone; \<^verbatim>\<open>inputText\<close> is still the value the handler was created with);
  the reply, or the apology when the call throws or the body is null, is appended; and
  \<^verbatim>\<open>loading\<close> is reset. The recorded audio is dropped once its post has returned.
\<close>

definition sendMessage ::
  "string option \<Rightarrow> backend \<Rightarrow> nat \<Rightarrow> nat \<Rightarrow> session_state \<Rightarrow> session_state" where
  "sendMessage sessionId backend now1 now2 st =
     (if (trim (inputText st) = [] \<and> audioBlob st = None) \<or> loading st then st
      else
        let newMessage = \<lparr>msg_id = now1, msg_text = trim (inputText st), sender = User,
                          msg_emotions = None\<rparr>;
            st1 = st\<lparr>messages := messages st @ [newMessage], inputText := [], loading := True\<rparr>;
            req = (case audioBlob st of
                     Some b \<Rightarrow>
                       PostAnalyzeAudio b
                         (if trim (inputText st) \<noteq> [] then Some (trim (inputText st)) else None)
                         (session_field sessionId)
                   | None \<Rightarrow> PostAnalyzeText (trim (inputText st)) (session_field sessionId));
            st2 = st1\<lparr>requests := requests st1 @ [req]\<rparr>;
            st3 = (case backend req of
                     Failed \<Rightarrow> st2\<lparr>messages := messages st2 @ [errorMessage now2]\<rparr>
                   | Response body \<Rightarrow>
                       let st2' = (if audioBlob st \<noteq> None then st2\<lparr>audioBlob := None\<rparr> else st2)
                       in (case body of
                             None \<Rightarrow> st2'\<lparr>messages := messages st2' @ [errorMessage now2]\<rparr>
                           | Some d \<Rightarrow> st2'\<lparr>messages := messages st2' @ [aiMessage now2 d]\<rparr>))
        in st3\<lparr>loading := False\<rparr>)"

text \<open>
  The earlier variant of the component has no session id; its \<^verbatim>\<open>sendMessage\<close> is
  otherwise the same function.
\<close>

definition sendMessage_basic ::
  "backend \<Rightarrow> nat \<Rightarrow> nat \<Rightarrow> session_state \<Rightarrow> session_state" where
  "sendMessage_basic backend now1 now2 st =
     (if (trim (inputText st) = [] \<and> audioBlob st = None) \<or> loading st then st
      else
        let newMessage = \<lparr>msg_id = now1, msg_text = trim (inputText st), sender = User,
                          msg_emotions = None\<rparr>;
            st1 = st\<lparr>messages := messages st @ [newMessage], inputText := [], loading := True\<rparr>;
            req = (case audioBlob st of
                     Some b \<Rightarrow>
                       PostAnalyzeAudio b
                         (if trim (inputText st) \<noteq> [] then Some (trim (inputText st)) else None)
                         None
                   | None \<Rightarrow> PostAnalyzeText (trim (inputText st)) None);
            st2 = st1\<lparr>requests := requests st1 @ [req]\<rparr>;
            st3 = (case backend req of
                     Failed \<Rightarrow> st2\<lparr>messages := messages st2 @ [errorMessage now2]\<rparr>
                   | Response body \<Rightarrow>
                       let st2' = (if audioBlob st \<noteq> None then st2\<lparr>audioBlob := None\<rparr> else st2)
                       in (case body of
                             None \<Rightarrow> st2'\<lparr>messages := messages st2' @ [errorMessage now2]\<rparr>
                           | Some d \<Rightarrow> st2'\<lparr>messages := messages st2' @ [aiMessage now2 d]\<rparr>))
        in st3\<lparr>loading := False\<rparr>)"

section \<open>The home page demo (\<^verbatim>\<open>HomePage\<close>)\<close>

record home_state =
  demoText :: string
  home_emotions :: "emotions option"
  isAnalyzing :: bool
  home_pending :: "string option"
  home_requests :: "request list"

text \<open>
  The home page's \<^verbatim>\<open>analyzeEmotions\<close> stores \<^verbatim>\<open>response.data.detected_emotions\<close>
  as it is (possibly absent); reading it from a null body throws, which the \<^verbatim>\<open>catch\<close>
  turns into the default emotions.
\<close>

definition analyzeEmotions_home :: "backend \<Rightarrow> string \<Rightarrow> home_state \<Rightarrow> home_state" where
  "analyzeEmotions_home backend txt st =
     (if trim txt = [] then
        st\<lparr>home_emotions := Some canonical_default, isAnalyzing := False\<rparr>
      else
        let req = PostAnalyzeTextEmotions (trim txt);
            st1 = st\<lparr>home_requests := home_requests st @ [req]\<rparr>;
            st2 = (case backend req of
                     Failed \<Rightarrow> st1\<lparr>home_emotions := Some canonical_default\<rparr>
                   | Response None \<Rightarrow> st1\<lparr>home_emotions := Some canonical_default\<rparr>
                   | Response (Some d) \<Rightarrow> st1\<lparr>home_emotions := detected_emotions d\<rparr>)
        in st2\<lparr>isAnalyzing := False\<rparr>)"

text \<open>The home page debounces its analysis in the same way.\<close>

definition debounced_analyzeEmotions_home :: "string \<Rightarrow> home_state \<Rightarrow> home_state" where
  "debounced_analyzeEmotions_home txt st = st\<lparr>home_pending := Some txt\<rparr>"

definition home_timer_expires :: "backend \<Rightarrow> home_state \<Rightarrow> home_state" where
  "home_timer_expires backend st =
     (case home_pending st of
        None \<Rightarrow> st
      | Some txt \<Rightarrow> analyzeEmotions_home backend txt (st\<lparr>home_pending := None\<rparr>))"

definition handleDemoTextChange :: "string \<Rightarrow> home_state \<Rightarrow> home_state" where
  "handleDemoTextChange txt st =
     (let st1 = st\<lparr>demoText := txt\<rparr>
      in if trim txt \<noteq> [] then debounced_analyzeEmotions_home txt (st1\<lparr>isAnalyzing := True\<rparr>)
         else st1\<lparr>home_emotions := Some canonical_default\<rparr>)"

section \<open>Properties of the string operations\<close>

lemma lower_char_idem: "lower_char (lower_char c) = lower_char c"
  by (simp add: lower_char_def Let_def)

lemma toLowerCase_idem: "toLowerCase (toLowerCase s) = toLowerCase s"
  by (simp add: toLowerCase_def lower_char_idem)

lemma trim_empty_iff: "trim s = [] \<longleftrightarrow> (\<forall>c \<in> set s. is_ws c)"
proof
  assume "trim s = []"
  then have a: "\<forall>c \<in> set (dropWhile is_ws s). is_ws c"
    by (simp add: trim_def)
  have "dropWhile is_ws s = []"
  proof (rule ccontr)
    assume n: "dropWhile is_ws s \<noteq> []"
    then have "\<not> is_ws (hd (dropWhile is_ws s))" by (rule hd_dropWhile)
    moreover have "hd (dropWhile is_ws s) \<in> set (dropWhile is_ws s)" using n by simp
    ultimately show False using a by blast
  qed
  then show "\<forall>c \<in> set s. is_ws c" by simp
next
  assume "\<forall>c \<in> set s. is_ws c"
  then have d: "dropWhile is_ws s = []" by simp
  show "trim s = []" unfolding trim_def d by simp
qed

lemma technique_ids_ascending: "sorted_wrt (<) (map technique_id therapyTechniques)"
  by (simp add: therapyTechniques_def deep_breathing_def gratitude_practice_def
      grounding_54321_def positive_reframing_def less_char_def)

lemma getTechniquesForEmotion_ids_ascending:
  "sorted_wrt (<) (map technique_id (getTechniquesForEmotion e))"
proof -
  have "sorted_wrt (\<lambda>a b. technique_id a < technique_id b) therapyTechniques"
    using technique_ids_ascending by (simp add: sorted_wrt_map)
  then have "sorted_wrt (\<lambda>a b. technique_id a < technique_id b) (getTechniquesForEmotion e)"
    unfolding getTechniquesForEmotion_def Let_def by (rule sorted_wrt_filter)
  then show ?thesis by (simp add: sorted_wrt_map)
qed

section \<open>Technique lookup\<close>

text \<open>
  Claim C4. For every emotion name that overlaps no technique's applicability list
  (\<^verbatim>\<open>forEmotions\<close>) -- extension labels unknown to the table, and labels such as
  \<^verbatim>\<open>happy\<close> that no stored technique lists -- the lookup returns the empty list. The
  lookup is a total function: lowercasing, \<^verbatim>\<open>filter\<close> and \<^verbatim>\<open>includes\<close> raise nothing.
\<close>

theorem getTechniquesForEmotion_no_overlap:
  "(\<forall>t \<in> set therapyTechniques. toLowerCase e \<notin> set (forEmotions t)) \<Longrightarrow>
     getTechniquesForEmotion e = []"
  by (simp add: getTechniquesForEmotion_def)

theorem getTechniquesForEmotion_no_overlap_witness:
  "getTechniquesForEmotion ''happy'' = [] \<and> getTechniquesForEmotion ''Calm'' = []"
proof -
  have h: "\<forall>t \<in> set therapyTechniques. toLowerCase ''happy'' \<notin> set (forEmotions t)"
    by (simp add: therapyTechniques_def deep_breathing_def gratitude_practice_def
        grounding_54321_def positive_reframing_def toLowerCase_def lower_char_def)
  have c: "\<forall>t \<in> set therapyTechniques. toLowerCase ''Calm'' \<notin> set (forEmotions t)"
    by code_simp
  show ?thesis
    using getTechniquesForEmotion_no_overlap [OF h] getTechniquesForEmotion_no_overlap [OF c]
    by simp
qed

text \<open>
  Claim C5. The lookup is deterministic and its order is reproducible: two invocations
  whose emotion names agree (even up to letter case) return the identical ordered list,
  and that list is in strictly ascending order of technique id -- it is the id-sorted list
  of the applicable techniques. The source has neither a score nor a \<open>k\<close>: every
  applicable technique is a candidate of the same rank and all of them are returned.
\<close>

theorem getTechniquesForEmotion_deterministic:
  "toLowerCase e1 = toLowerCase e2 \<Longrightarrow>
     getTechniquesForEmotion e1 = getTechniquesForEmotion e2 \<and>
     sorted_wrt (<) (map technique_id (getTechniquesForEmotion e1)) \<and>
     getTechniquesForEmotion e1 =
       sort_key technique_id
         (filter (\<lambda>t. toLowerCase e1 \<in> set (forEmotions t)) therapyTechniques)"
proof -
  assume eq: "toLowerCase e1 = toLowerCase e2"
  have asc: "sorted_wrt (<) (map technique_id (getTechniquesForEmotion e1))"
    by (rule getTechniquesForEmotion_ids_ascending)
  then have "sorted (map technique_id (getTechniquesForEmotion e1))"
    by (rule strict_sorted_imp_sorted)
  then have "sort_key technique_id (getTechniquesForEmotion e1) = getTechniquesForEmotion e1"
    by (rule sort_key_id_if_sorted)
  then show ?thesis
    using eq asc by (simp add: getTechniquesForEmotion_def)
qed

theorem getTechniquesForEmotion_deterministic_witness:
  "getTechniquesForEmotion ''Sad'' = getTechniquesForEmotion ''SAD'' \<and>
   map technique_id (getTechniquesForEmotion ''Sad'') =
     [''deep-breathing'', ''gratitude-practice'', ''grounding-54321'', ''positive-reframing'']"
proof -
  have eq: "toLowerCase ''Sad'' = toLowerCase ''SAD''"
    by code_simp
  have ids: "map technique_id (getTechniquesForEmotion ''Sad'') =
     [''deep-breathing'', ''gratitude-practice'', ''grounding-54321'', ''positive-reframing'']"
    by code_simp
  show ?thesis
    using getTechniquesForEmotion_deterministic [OF eq] ids by simp
qed

text \<open>
  Claim C10. Technique lookup is case-insensitive: for every string \<open>s\<close>,
  \<^verbatim>\<open>getTechniquesForEmotion(s)\<close> returns the same list as the lookup of the lowercased
  \<open>s\<close>, because the argument is lowercased before it is matched against each technique's
  \<^verbatim>\<open>forEmotions\<close>.
\<close>

theorem getTechniquesForEmotion_case_insensitive:
  "getTechniquesForEmotion s = getTechniquesForEmotion (toLowerCase s)"
  by (simp add: getTechniquesForEmotion_def toLowerCase_idem)

section \<open>Text analysis of blank input\<close>

text \<open>
  Typed text is analysed when the timer expires, not at the keystroke; and clearing the
  field does not cancel a running timer, so the text typed before is still posted.
\<close>

lemma typed_text_is_analysed_later:
  assumes "trim txt \<noteq> []"
  shows "requests (handleTextChange txt st) = requests st"
    and "requests (analysis_timer_expires backend (handleTextChange txt st))
           = requests st @ [PostAnalyzeTextEmotions (trim txt)]"
  using assms
  by (simp_all add: handleTextChange_def debounced_analyzeEmotions_def
      analysis_timer_expires_def analyzeEmotions_def Let_def
      split: response.split option.split)

lemma cleared_field_keeps_pending_analysis:
  assumes "trim txt \<noteq> []" and "trim blank = []"
  shows "requests (analysis_timer_expires backend (handleTextChange blank (handleTextChange txt st)))
           = requests st @ [PostAnalyzeTextEmotions (trim txt)]"
  using assms
  by (simp add: handleTextChange_def debounced_analyzeEmotions_def
      analysis_timer_expires_def analyzeEmotions_def Let_def
      split: response.split option.split)

text \<open>
  Claim C2. For every input text that is empty or consists only of whitespace, the text
  analysis path short-circuits to the canonical default distribution
  \<^verbatim>\<open>{neutral: 0.9, calm: 0.1}\<close>: whatever the backend would answer, no request is
  issued (the request log is unchanged), and the stored distribution is this fixed
  two-entry map, not an empty one. This holds for the analysis function and for the
  change handler, which on blank text does not even call the debounced analysis, in the
  session component and on the home page.
\<close>

theorem blank_text_short_circuits:
  assumes blank: "\<forall>c \<in> set txt. is_ws c"
  shows "analyzeEmotions backend txt st =
           st\<lparr>currentEmotions :=
                [(''neutral'', double_round (9 / 10)), (''calm'', double_round (1 / 10))],
              isAnalyzingEmotions := False\<rparr> \<and>
         requests (analyzeEmotions backend txt st) = requests st \<and>
         handleTextChange txt st =
           st\<lparr>inputText := txt,
              currentEmotions :=
                [(''neutral'', double_round (9 / 10)), (''calm'', double_round (1 / 10))]\<rparr> \<and>
         pendingAnalysis (handleTextChange txt st) = pendingAnalysis st \<and>
         requests (handleTextChange txt st) = requests st \<and>
         analyzeEmotions_home backend txt hst =
           hst\<lparr>home_emotions :=
                 Some [(''neutral'', double_round (9 / 10)), (''calm'', double_round (1 / 10))],
               isAnalyzing := False\<rparr> \<and>
         home_requests (analyzeEmotions_home backend txt hst) = home_requests hst \<and>
         handleDemoTextChange txt hst =
           hst\<lparr>demoText := txt,
               home_emotions :=
                 Some [(''neutral'', double_round (9 / 10)), (''calm'', double_round (1 / 10))]\<rparr> \<and>
         home_pending (handleDemoTextChange txt hst) = home_pending hst \<and>
         home_requests (handleDemoTextChange txt hst) = home_requests hst"
proof -
  have t: "trim txt = []" using blank by (simp add: trim_empty_iff)
  show ?thesis
    by (simp add: t analyzeEmotions_def handleTextChange_def analyzeEmotions_home_def
        handleDemoTextChange_def canonical_default_def)
qed

text \<open>
  The theorem at a text of a space, a tab and a no-break space, in a state that shows
  \<^verbatim>\<open>{sad: 1}\<close>, is analysing and has posted one request before, with a backend that
  would answer \<^verbatim>\<open>{sad: 1}\<close> again: the default replaces the shown emotions, the flag is
  reset and the log still holds that one request.
\<close>

theorem blank_text_short_circuits_witness:
  "currentEmotions
     (analyzeEmotions
        (\<lambda>r. Response (Some \<lparr>response_text = ''ok'', detected_emotions = Some [(''sad'', 1)]\<rparr>))
        [CHR '' '', CHR 0x09, CHR 0xA0]
        (initial_state\<lparr>currentEmotions := [(''sad'', 1)], isAnalyzingEmotions := True,
                       requests := [PostAnalyzeTextEmotions ''hi'']\<rparr>))
     = [(''neutral'', double_round (9 / 10)), (''calm'', double_round (1 / 10))] \<and>
   isAnalyzingEmotions
     (analyzeEmotions
        (\<lambda>r. Response (Some \<lparr>response_text = ''ok'', detected_emotions = Some [(''sad'', 1)]\<rparr>))
        [CHR '' '', CHR 0x09, CHR 0xA0]
        (initial_state\<lparr>currentEmotions := [(''sad'', 1)], isAnalyzingEmotions := True,
                       requests := [PostAnalyzeTextEmotions ''hi'']\<rparr>))
     = False \<and>
   requests
     (analyzeEmotions
        (\<lambda>r. Response (Some \<lparr>response_text = ''ok'', detected_emotions = Some [(''sad'', 1)]\<rparr>))
        [CHR '' '', CHR 0x09, CHR 0xA0]
        (initial_state\<lparr>currentEmotions := [(''sad'', 1)], isAnalyzingEmotions := True,
                       requests := [PostAnalyzeTextEmotions ''hi'']\<rparr>))
     = [PostAnalyzeTextEmotions ''hi''] \<and>
   currentEmotions
     (handleTextChange [CHR '' '', CHR 0x09, CHR 0xA0]
        (initial_state\<lparr>currentEmotions := [(''sad'', 1)], isAnalyzingEmotions := True,
                       requests := [PostAnalyzeTextEmotions ''hi'']\<rparr>))
     = [(''neutral'', double_round (9 / 10)), (''calm'', double_round (1 / 10))]"
proof -
  have blank: "\<forall>c \<in> set [CHR '' '', CHR 0x09, CHR 0xA0]. is_ws c"
    by (simp add: is_ws_def)
  show ?thesis
    using blank_text_short_circuits [OF blank,
        of "\<lambda>r. Response (Some \<lparr>response_text = ''ok'', detected_emotions = Some [(''sad'', 1)]\<rparr>)"
           "initial_state\<lparr>currentEmotions := [(''sad'', 1)], isAnalyzingEmotions := True,
                          requests := [PostAnalyzeTextEmotions ''hi'']\<rparr>"]
    by (simp add: initial_state_def)
qed

section \<open>Sending a message\<close>

lemma sendMessage_basic_eq:
  "sendMessage_basic backend now1 now2 st = sendMessage None backend now1 now2 st"
proof -
  have n: "session_field None = None" by (simp add: session_field_def)
  show ?thesis unfolding sendMessage_def sendMessage_basic_def n ..
qed

lemma sendMessage_messages:
  assumes acc: "\<not> ((trim (inputText st) = [] \<and> audioBlob st = None) \<or> loading st)"
  shows "\<exists>reply.
           messages (sendMessage sessionId backend now1 now2 st) =
             messages st @
               [\<lparr>msg_id = now1, msg_text = trim (inputText st), sender = User,
                 msg_emotions = None\<rparr>,
                reply] \<and>
           sender reply = AI"
proof -
  define req where "req = (case audioBlob st of
                     Some b \<Rightarrow>
                       PostAnalyzeAudio b
                         (if trim (inputText st) \<noteq> [] then Some (trim (inputText st)) else None)
                         (session_field sessionId)
                   | None \<Rightarrow> PostAnalyzeText (trim (inputText st)) (session_field sessionId))"
  have c: "((trim (inputText st) = [] \<and> audioBlob st = None) \<or> loading st) = False"
    using acc by simp
  show ?thesis
  proof (cases "backend req")
    case Failed
    then show ?thesis unfolding sendMessage_def c if_False
      by (simp add: Let_def errorMessage_def req_def [symmetric])
  next
    case (Response body)
    then show ?thesis unfolding sendMessage_def c if_False
      by (cases body) (simp_all add: Let_def errorMessage_def aiMessage_def req_def [symmetric])
  qed
qed

text \<open>
  Claim C7. A request whose required fields are empty (no non-whitespace text and no audio
  attachment) is rejected before any analysis call: \<^verbatim>\<open>sendMessage\<close> returns the state
  it was given -- no request is issued, the message sequence is not touched, and nothing
  is defaulted in place of the missing input. Both variants of the component agree.
\<close>

theorem sendMessage_rejects_empty:
  assumes "\<forall>c \<in> set (inputText st). is_ws c" and "audioBlob st = None"
  shows "sendMessage sessionId backend now1 now2 st = st \<and>
         sendMessage_basic backend now1 now2 st = st \<and>
         messages (sendMessage sessionId backend now1 now2 st) = messages st \<and>
         requests (sendMessage sessionId backend now1 now2 st) = requests st"
proof -
  have t: "trim (inputText st) = []" using assms(1) by (simp add: trim_empty_iff)
  show ?thesis by (simp add: t assms(2) sendMessage_def sendMessage_basic_def)
qed

theorem sendMessage_rejects_empty_witness:
  "sendMessage (Some ''s-1'')
     (\<lambda>r. Response (Some \<lparr>response_text = ''ok'', detected_emotions = None\<rparr>)) 100 200
     (initial_state\<lparr>inputText := [CHR 0xA0, CHR '' '', CHR 0x0A]\<rparr>)
     = initial_state\<lparr>inputText := [CHR 0xA0, CHR '' '', CHR 0x0A]\<rparr>"
proof -
  have a: "\<forall>c \<in> set (inputText (initial_state\<lparr>inputText := [CHR 0xA0, CHR '' '', CHR 0x0A]\<rparr>)).
             is_ws c"
    by (simp add: is_ws_def)
  have b: "audioBlob (initial_state\<lparr>inputText := [CHR 0xA0, CHR '' '', CHR 0x0A]\<rparr>) = None"
    by (simp add: initial_state_def)
  show ?thesis
    using sendMessage_rejects_empty [OF a b] by simp
qed

text \<open>
  Claim C8. Each completed run of \<^verbatim>\<open>sendMessage\<close> (one that passes the guard) appends
  exactly one user turn followed by exactly one assistant turn to the message sequence:
  the earlier turns stay in front, unchanged and in their order, whether the backend
  answered or the call failed.
\<close>

theorem sendMessage_appends_turns:
  assumes "\<not> ((trim (inputText st) = [] \<and> audioBlob st = None) \<or> loading st)"
  shows "(\<exists>reply.
           messages (sendMessage sessionId backend now1 now2 st) =
             messages st @
               [\<lparr>msg_id = now1, msg_text = trim (inputText st), sender = User,
                 msg_emotions = None\<rparr>,
                reply] \<and>
           sender reply = AI) \<and>
         (\<exists>reply.
           messages (sendMessage_basic backend now1 now2 st) =
             messages st @
               [\<lparr>msg_id = now1, msg_text = trim (inputText st), sender = User,
                 msg_emotions = None\<rparr>,
                reply] \<and>
           sender reply = AI)"
  using sendMessage_messages [OF assms] unfolding sendMessage_basic_eq by blast

theorem sendMessage_appends_turns_witness:
  "\<exists>reply.
     messages
       (sendMessage None (\<lambda>r. Failed) 100 200
          (initial_state\<lparr>inputText := [CHR 0xA0, CHR ''h'', CHR ''i'', CHR '' '']\<rparr>)) =
       messages (initial_state\<lparr>inputText := [CHR 0xA0, CHR ''h'', CHR ''i'', CHR '' '']\<rparr>) @
         [\<lparr>msg_id = 100, msg_text = ''hi'', sender = User, msg_emotions = None\<rparr>, reply] \<and>
     sender reply = AI"
proof -
  have t: "trim [CHR 0xA0, CHR ''h'', CHR ''i'', CHR '' ''] = ''hi''" by code_simp
  have h: "\<not> ((trim (inputText
                       (initial_state\<lparr>inputText := [CHR 0xA0, CHR ''h'', CHR ''i'', CHR '' '']\<rparr>)) = [] \<and>
               audioBlob
                 (initial_state\<lparr>inputText := [CHR 0xA0, CHR ''h'', CHR ''i'', CHR '' '']\<rparr>) = None) \<or>
              loading (initial_state\<lparr>inputText := [CHR 0xA0, CHR ''h'', CHR ''i'', CHR '' '']\<rparr>))"
    by (simp add: t initial_state_def)
  show ?thesis
    using sendMessage_appends_turns [OF h, of None "\<lambda>r. Failed" 100 200] by (simp add: t)
qed

section \<open>The dominant emotion\<close>

text \<open>
  The scan of \<^verbatim>\<open>getDominantEmotion\<close>, started with running maximum \<open>m\<close> and label
  \<open>d\<close>: if some score exceeds \<open>m\<close>, the result is the first entry that attains the
  largest score; otherwise the pair is returned as it was.
\<close>

lemma fold_dominant_step:
  "(if \<exists>e \<in> set es. m < snd e
    then \<exists>pre l s post. es = pre @ (l, s) # post \<and> (\<forall>e \<in> set pre. snd e < s) \<and>
           (\<forall>e \<in> set post. snd e \<le> s) \<and> m < s \<and> fold dominant_step es (m, d) = (s, l)
    else fold dominant_step es (m, d) = (m, d))"
proof (induction es arbitrary: m d)
  case Nil
  show ?case by simp
next
  case (Cons e es)
  obtain l0 s0 where e: "e = (l0, s0)" by (cases e)
  show ?case
  proof (cases "m < s0")
    case True
    then have step: "fold dominant_step (e # es) (m, d) = fold dominant_step es (s0, l0)"
      by (simp add: e)
    have some: "\<exists>x \<in> set (e # es). m < snd x" using True e by simp
    show ?thesis
    proof (cases "\<exists>e' \<in> set es. s0 < snd e'")
      case ex: True
      with Cons.IH [of s0 l0] obtain pre l s post where
        split: "es = pre @ (l, s) # post" and pre: "\<forall>e \<in> set pre. snd e < s" and
        post: "\<forall>e \<in> set post. snd e \<le> s" and gt: "s0 < s" and
        res: "fold dominant_step es (s0, l0) = (s, l)"
        by auto
      have "e # es = (e # pre) @ (l, s) # post" using split by simp
      moreover have "\<forall>x \<in> set (e # pre). snd x < s" using pre gt e by simp
      moreover have "m < s" using True gt by simp
      ultimately have "\<exists>pre l s post. e # es = pre @ (l, s) # post \<and>
           (\<forall>e \<in> set pre. snd e < s) \<and> (\<forall>e \<in> set post. snd e \<le> s) \<and> m < s \<and>
           fold dominant_step (e # es) (m, d) = (s, l)"
        using post res step by metis
      then show ?thesis using some by simp
    next
      case nex: False
      with Cons.IH [of s0 l0] have res: "fold dominant_step es (s0, l0) = (s0, l0)" by simp
      have "e # es = [] @ (l0, s0) # es" using e by simp
      moreover have "\<forall>x \<in> set es. snd x \<le> s0" using nex by (auto simp: not_less)
      ultimately have "\<exists>pre l s post. e # es = pre @ (l, s) # post \<and>
           (\<forall>e \<in> set pre. snd e < s) \<and> (\<forall>e \<in> set post. snd e \<le> s) \<and> m < s \<and>
           fold dominant_step (e # es) (m, d) = (s, l)"
        using True res step by (metis empty_iff list.set(1))
      then show ?thesis using some by simp
    qed
  next
    case False
    then have step: "fold dominant_step (e # es) (m, d) = fold dominant_step es (m, d)"
      by (simp add: e)
    show ?thesis
    proof (cases "\<exists>e' \<in> set es. m < snd e'")
      case ex: True
      with Cons.IH [of m d] obtain pre l s post where
        split: "es = pre @ (l, s) # post" and pre: "\<forall>e \<in> set pre. snd e < s" and
        post: "\<forall>e \<in> set post. snd e \<le> s" and gt: "m < s" and
        res: "fold dominant_step es (m, d) = (s, l)"
        by auto
      have "e # es = (e # pre) @ (l, s) # post" using split by simp
      moreover have "\<forall>x \<in> set (e # pre). snd x < s" using pre gt e False by simp
      ultimately have "\<exists>pre l s post. e # es = pre @ (l, s) # post \<and>
           (\<forall>e \<in> set pre. snd e < s) \<and> (\<forall>e \<in> set post. snd e \<le> s) \<and> m < s \<and>
           fold dominant_step (e # es) (m, d) = (s, l)"
        using post res step gt by metis
      moreover have "\<exists>x \<in> set (e # es). m < snd x" using ex by simp
      ultimately show ?thesis by simp
    next
      case nex: False
      with Cons.IH [of m d] have res: "fold dominant_step es (m, d) = (m, d)" by simp
      have "\<not> (\<exists>x \<in> set (e # es). m < snd x)" using nex False e by simp
      then show ?thesis using res step by simp
    qed
  qed
qed

text \<open>
  Claim C3, as the code has it. For every emotion mapping with a positive score, the
  dominant label is a label attaining the maximal score, and among labels of equal maximal
  score it is the one that comes first in the mapping's iteration order: every entry
  before it has a strictly smaller score, every entry after it a smaller or equal one.
  No reliability-weighted mass is consulted. With no positive score the result is
  \<^verbatim>\<open>neutral\<close>.
\<close>

theorem getDominantEmotion_first_maximal:
  "(if \<exists>e \<in> set es. 0 < snd e
    then \<exists>pre l s post. es = pre @ (l, s) # post \<and> (\<forall>e \<in> set pre. snd e < s) \<and>
           (\<forall>e \<in> set post. snd e \<le> s) \<and> getDominantEmotion es = l
    else getDominantEmotion es = ''neutral'')"
proof (cases "\<exists>e \<in> set es. 0 < snd e")
  case True
  with fold_dominant_step [of es 0 "''neutral''"] obtain pre l s post where
    split: "es = pre @ (l, s) # post" and pre: "\<forall>e \<in> set pre. snd e < s" and
    post: "\<forall>e \<in> set post. snd e \<le> s" and
    res: "fold dominant_step es (0, ''neutral'') = (s, l)"
    by auto
  have "getDominantEmotion es = l"
    unfolding getDominantEmotion_def res by simp
  with split pre post have "\<exists>pre l s post. es = pre @ (l, s) # post \<and>
      (\<forall>e \<in> set pre. snd e < s) \<and> (\<forall>e \<in> set post. snd e \<le> s) \<and>
      getDominantEmotion es = l"
    by blast
  then show ?thesis using True by simp
next
  case False
  with fold_dominant_step [of es 0 "''neutral''"] show ?thesis
    by (simp add: getDominantEmotion_def)
qed

theorem getDominantEmotion_first_maximal_witness:
  "\<exists>pre l s post.
     [(''sad'', 1 / 2 :: rat), (''happy'', 1 / 2), (''calm'', 0)] = pre @ (l, s) # post \<and>
     (\<forall>e \<in> set pre. snd e < s) \<and> (\<forall>e \<in> set post. snd e \<le> s) \<and>
     getDominantEmotion [(''sad'', 1 / 2), (''happy'', 1 / 2), (''calm'', 0)] = l"
proof -
  have pos: "(\<exists>e \<in> set [(''sad'', 1 / 2 :: rat), (''happy'', 1 / 2), (''calm'', 0)]. 0 < snd e) = True"
    by simp
  show ?thesis
    using getDominantEmotion_first_maximal [of "[(''sad'', 1 / 2), (''happy'', 1 / 2), (''calm'', 0)]"]
    unfolding pos if_True .
qed

text \<open>
  Claim C3 as stated fails: the same mapping, with its two equal maximal entries listed
  in the other order, has the other dominant label. The tie is decided by the iteration
  order of the mapping.
\<close>

theorem getDominantEmotion_tie_follows_order:
  "set [(''sad'', 1 / 2 :: rat), (''happy'', 1 / 2)] = set [(''happy'', 1 / 2), (''sad'', 1 / 2)] \<and>
   getDominantEmotion [(''sad'', 1 / 2), (''happy'', 1 / 2)] = ''sad'' \<and>
   getDominantEmotion [(''happy'', 1 / 2), (''sad'', 1 / 2)] = ''happy''"
  by (auto simp add: getDominantEmotion_def)

section \<open>Percentages\<close>

text \<open>
  \<open>double_round\<close> moves a number by at most half a unit in the last place.
\<close>

lemma pow2_pos: "0 < pow2 e"
  by (simp add: pow2_def)

lemma round_half_even_error: "\<bar>rat_of_int (round_half_even q) - q\<bar> \<le> 1 / 2"
proof -
  have "rat_of_int \<lfloor>q\<rfloor> \<le> q" "q < rat_of_int \<lfloor>q\<rfloor> + 1"
    using floor_correct [of q] by simp_all
  then show ?thesis
    by (auto simp add: round_half_even_def Let_def)
qed

lemma double_round_error:
  "\<bar>double_round x - x\<bar> \<le> pow2 (max (binary_exponent \<bar>x\<bar> - 52) (- 1074)) / 2"
proof (cases "x = 0")
  case True
  then show ?thesis using pow2_pos [of "max (binary_exponent \<bar>x\<bar> - 52) (- 1074)"]
    by (simp add: double_round_def)
next
  case False
  define p where "p = pow2 (max (binary_exponent \<bar>x\<bar> - 52) (- 1074))"
  define m where "m = round_half_even (\<bar>x\<bar> / p)"
  have pp: "0 < p" unfolding p_def by (rule pow2_pos)
  have dr: "double_round x = sgn x * rat_of_int m * p"
    using False by (simp add: double_round_def Let_def p_def m_def)
  have "\<bar>rat_of_int m - \<bar>x\<bar> / p\<bar> \<le> 1 / 2" unfolding m_def by (rule round_half_even_error)
  then have "\<bar>rat_of_int m - \<bar>x\<bar> / p\<bar> * p \<le> 1 / 2 * p"
    using pp by (simp add: mult_right_mono)
  moreover have "\<bar>rat_of_int m - \<bar>x\<bar> / p\<bar> * p = \<bar>rat_of_int m * p - \<bar>x\<bar>\<bar>"
  proof -
    have "\<bar>rat_of_int m - \<bar>x\<bar> / p\<bar> * p = \<bar>rat_of_int m - \<bar>x\<bar> / p\<bar> * \<bar>p\<bar>"
      using pp by simp
    also have "\<dots> = \<bar>(rat_of_int m - \<bar>x\<bar> / p) * p\<bar>" by (simp only: abs_mult)
    also have "(rat_of_int m - \<bar>x\<bar> / p) * p = rat_of_int m * p - \<bar>x\<bar>"
      using pp by (simp add: left_diff_distrib)
    finally show ?thesis .
  qed
  ultimately have e: "\<bar>rat_of_int m * p - \<bar>x\<bar>\<bar> \<le> p / 2" by simp
  have "double_round x - x = sgn x * (rat_of_int m * p - \<bar>x\<bar>)"
    by (simp add: dr right_diff_distrib mult.assoc sgn_mult_abs)
  then have "\<bar>double_round x - x\<bar> = \<bar>rat_of_int m * p - \<bar>x\<bar>\<bar>"
    using False by (simp add: abs_mult abs_sgn_eq)
  with e show ?thesis unfolding p_def by simp
qed

text \<open>
  The rounding model at values where doubles and exact arithmetic part: \<^verbatim>\<open>0.1\<close> is not
  one tenth, \<^verbatim>\<open>0.1 + 0.2\<close> is not \<^verbatim>\<open>0.3\<close>, \<^verbatim>\<open>0.015 * 100\<close> is exactly
  \<^verbatim>\<open>1.5\<close> and rounds to 2, \<^verbatim>\<open>0.285 * 100\<close> rounds to 28, and
  \<^verbatim>\<open>46 / 80 * 100\<close> rounds to 57.
\<close>

lemma double_round_examples:
  "double_round (1 / 10) = 3602879701896397 / 36028797018963968 \<and>
   double_round (double_round (1 / 10) + double_round (2 / 10)) \<noteq> double_round (3 / 10) \<and>
   double_round (3 / 8) = 3 / 8 \<and>
   fmul (double_round (15 / 1000)) 100 = 3 / 2 \<and>
   Math_round (fmul (double_round (15 / 1000)) 100) = 2 \<and>
   Math_round (fmul (double_round (285 / 1000)) 100) = 28 \<and>
   Math_round (fmul (fdiv 46 80) 100) = 57"
  by code_simp









text \<open>
  The session component stores a non-empty answer of the backend as it is: nothing is
  renormalised on the way to the visualizer.
\<close>

lemma analyzeEmotions_stores_answer:
  assumes "trim txt \<noteq> []"
    and "backend (PostAnalyzeTextEmotions (trim txt)) = Response (Some d)"
    and "detected_emotions d = Some detected" and "detected \<noteq> []"
  shows "currentEmotions (analyzeEmotions backend txt st) = detected"
  using assms by (simp add: analyzeEmotions_def Let_def)

text \<open>
  The mock visualizer's own normalisation rounds each share separately, so its total
  can miss 100: the draws 45, 24, 19, 9, 9 are shown as 42, 23, 18, 8, 8.
\<close>

lemma normalizedEmotions_total_99:
  "map percentage (normalizedEmotions (mockEmotion 0 19 14 9 9)) = [42, 23, 18, 8, 8] \<and>
   sum_list (map percentage (normalizedEmotions (mockEmotion 0 19 14 9 9))) = 99"
  by code_simp




section \<open>Replies and tips\<close>

lemma apology_nonempty: "apology \<noteq> []"
  by (simp add: apology_def)

text \<open>A failed backend call ends with the apology as the last message.\<close>

lemma sendMessage_failed_call:
  assumes acc: "\<not> ((trim (inputText st) = [] \<and> audioBlob st = None) \<or> loading st)"
    and fail: "\<forall>r. backend r = Failed"
  shows "last (messages (sendMessage sessionId backend now1 now2 st)) = errorMessage now2"
proof -
  have c: "((trim (inputText st) = [] \<and> audioBlob st = None) \<or> loading st) = False"
    using acc by simp
  show ?thesis unfolding sendMessage_def c if_False
    by (simp add: Let_def fail)
qed

text \<open>
  The reply appended by an accepted \<^verbatim>\<open>sendMessage\<close> has non-empty text whenever the
  backend never answers with an empty \<^verbatim>\<open>response_text\<close>: the frontend passes the
  backend's text on as it is, and supplies the apology when there is none.
\<close>

lemma sendMessage_reply_nonempty:
  assumes acc: "\<not> ((trim (inputText st) = [] \<and> audioBlob st = None) \<or> loading st)"
    and contract: "\<forall>r d. backend r = Response (Some d) \<longrightarrow> response_text d \<noteq> []"
  shows "msg_text (last (messages (sendMessage sessionId backend now1 now2 st))) \<noteq> []"
proof -
  define req where "req = (case audioBlob st of
                     Some b \<Rightarrow>
                       PostAnalyzeAudio b
                         (if trim (inputText st) \<noteq> [] then Some (trim (inputText st)) else None)
                         (session_field sessionId)
                   | None \<Rightarrow> PostAnalyzeText (trim (inputText st)) (session_field sessionId))"
  have c: "((trim (inputText st) = [] \<and> audioBlob st = None) \<or> loading st) = False"
    using acc by simp
  show ?thesis
  proof (cases "backend req")
    case Failed
    then show ?thesis unfolding sendMessage_def c if_False
      by (simp add: Let_def errorMessage_def apology_def req_def [symmetric])
  next
    case (Response body)
    show ?thesis
    proof (cases body)
      case None
      then show ?thesis using Response unfolding sendMessage_def c if_False
        by (simp add: Let_def errorMessage_def apology_def req_def [symmetric])
    next
      case (Some d)
      then have "response_text d \<noteq> []" using contract Response by blast
      then show ?thesis using Response Some unfolding sendMessage_def c if_False
        by (simp add: Let_def aiMessage_def req_def [symmetric])
    qed
  qed
qed

text \<open>
  For a label that names no inherited property, the tips lookup returns an array of
  non-empty tips: the label's own, or the \<^verbatim>\<open>Neutral\<close> ones when the label is unknown.
\<close>

lemma getTherapyTips_fallback:
  assumes "label \<notin> set Object_prototype"
  shows "\<exists>tips. getTherapyTips label = Val tips \<and> tips \<noteq> [] \<and> [] \<notin> set tips"
    and "label \<notin> set (map fst emotionTips) \<Longrightarrow> getTherapyTips label = getTherapyTips ''Neutral''"
  using assms
  by (simp_all add: getTherapyTips_def Get_def emotionTips_def Object_prototype_def)

text \<open>
  Claim C1 says that the tips lookup falls back to the \<^verbatim>\<open>Neutral\<close> tips for any unknown
  dominant label and that no error surfaces. The lookup \<^verbatim>\<open>emotionTips[emotion]\<close> also
  finds what the table inherits from \<^verbatim>\<open>Object.prototype\<close>: for the unknown label
  \<^verbatim>\<open>__defineGetter__\<close> it yields the inherited function, which is truthy, so the
  \<^verbatim>\<open>||\<close> fallback is not taken, the result is not the \<^verbatim>\<open>Neutral\<close> tips, and rendering
  the visualizer for the mapping \<^verbatim>\<open>{"__defineGetter__": 1}\<close> throws a \<^verbatim>\<open>TypeError\<close>.
\<close>

theorem getTherapyTips_inherited_property:
  "''__defineGetter__'' \<notin> set (map fst emotionTips) \<and>
   getTherapyTips ''__defineGetter__'' = Inherited ''__defineGetter__'' \<and>
   getTherapyTips ''__defineGetter__'' \<noteq> getTherapyTips ''Neutral'' \<and>
   dominantEmotion (formatEmotions (Some [(''__defineGetter__'', 1)])) = ''__defineGetter__'' \<and>
   EmotionVisualizer (Some [(''__defineGetter__'', 1)]) False = Inl TypeError"
  by code_simp

section \<open>Formatting emotion data\<close>

lemma Get_absent:
  assumes "\<not> HasProperty obj key"
  shows "Get obj key = Undefined"
proof -
  from assms have own: "key \<notin> fst ` set obj" and inh: "key \<notin> set Object_prototype"
    by (simp_all add: HasProperty_def)
  from own have "map_of obj key = None" by (simp add: map_of_eq_None_iff)
  with inh show ?thesis by (simp add: Get_def)
qed

text \<open>
  \<^verbatim>\<open>formatEmotionData\<close> keeps the entries and their order; each percentage is the
  rounded score, and a label whose lowercase form is no property of the colour table
  gets the neutral colour.
\<close>

lemma formatEmotionData_entries:
  "length (formatEmotionData es) = length es \<and>
   map emotion (formatEmotionData es) = map fst es \<and>
   map percentage (formatEmotionData es) = map (\<lambda>(l, v). Math_round (fmul v 100)) es \<and>
   map color (formatEmotionData es) =
     map (\<lambda>(l, v). if HasProperty emotionColors (toLowerCase l)
                    then Get emotionColors (toLowerCase l) else Val ''#4F46E5'') es"
  by (simp add: formatEmotionData_def Let_def case_prod_beta Get_def emotionColors_def)

text \<open>
  \<^verbatim>\<open>formatEmotions\<close> shows the default list for an absent or empty mapping, and
  otherwise the five entries of largest percentage, each formatted on its own.
\<close>

lemma formatEmotions_default:
  "formatEmotions None = defaultEmotions \<and> formatEmotions (Some []) = defaultEmotions \<and>
   length defaultEmotions = 5"
  by (simp add: formatEmotions_def defaultEmotions_def)

lemma format_entry_fields:
  "percentage (format_entry (l, v)) = Math_round (fmul v 100) \<and>
   (\<not> HasProperty EMOTION_COLORS (toLowerCase l) \<longrightarrow>
      color (format_entry (l, v)) = Val ''#4F46E5'')"
  by (simp add: Get_absent)

text \<open>
  Claim C9 says that a label outside the known colour set is assigned the neutral colour
  \<^verbatim>\<open>#4F46E5\<close>. The label \<^verbatim>\<open>constructor\<close> is in neither colour table, but both
  tables inherit a property of that name from \<^verbatim>\<open>Object.prototype\<close>: the \<^verbatim>\<open>in\<close> test
  of \<^verbatim>\<open>formatEmotionData\<close> succeeds and the \<^verbatim>\<open>||\<close> fallback of \<^verbatim>\<open>formatEmotions\<close>
  is not taken, so both return the inherited function as the colour. Neither function
  throws, and the percentage is the rounded score as claimed.
\<close>

theorem formatEmotionData_inherited_property:
  "''constructor'' \<notin> set (map fst emotionColors) \<and>
   ''constructor'' \<notin> set (map fst EMOTION_COLORS) \<and>
   formatEmotionData [(''constructor'', 1 / 2)] =
     [\<lparr>emotion = ''constructor'', percentage = 50, color = Inherited ''constructor''\<rparr>] \<and>
   formatEmotions (Some [(''constructor'', 1 / 2)]) =
     [\<lparr>emotion = ''Constructor'', percentage = 50, color = Inherited ''constructor''\<rparr>] \<and>
   formatEmotionData [(''bored'', 1 / 2)] =
     [\<lparr>emotion = ''bored'', percentage = 50, color = Val ''#4F46E5''\<rparr>]"
  by code_simp

end
